theory Spec2Isabelle
  imports Main "HOL-Library.Word"
begin

unbundle bit_operations_syntax

section \<open>Machine types of \<^verbatim>\<open>MediaExtractorPluginHelper.h\<close>\<close>

text \<open>
  The fixed-width integers of the header are words. C's \<^verbatim>\<open>int\<close>, into which
  \<^verbatim>\<open>uint8_t\<close> operands are promoted before \<^verbatim>\<open><<\<close> and \<^verbatim>\<open>|\<close>, is 32 bits wide on every
  Android ABI; the promoted values below are never negative, so the bit pattern is all
  that matters and a 32-bit word carries it. \<^verbatim>\<open>off64_t\<close> is a 64-bit word that the
  readers only pass on. \<^verbatim>\<open>size_t\<close> and \<^verbatim>\<open>ssize_t\<close> are only compared with small
  constants, so they are modelled by their mathematical values.
\<close>

type_synonym uint8_t = "8 word"
type_synonym uint16_t = "16 word"
type_synonym uint32_t = "32 word"
type_synonym uint64_t = "64 word"
type_synonym c_int = "32 word"
type_synonym off64_t = "64 word"
type_synonym size_t = nat
type_synonym ssize_t = int

section \<open>\<^verbatim>\<open>CDataSource\<close> and \<^verbatim>\<open>DataSourceHelper\<close>\<close>

text \<open>
  Modelled from the spec: the struct \<^verbatim>\<open>CDataSource\<close> is declared in
  \<^verbatim>\<open>media/MediaExtractorPluginApi.h\<close>, which is not part of the sources; the spec
  describes it as an opaque handle plus the function pointers readAt, getSize, getUri
  and flags. Only \<^verbatim>\<open>readAt\<close> is used by the readers verified here.

  The type \<open>'h\<close> is the state of the host object behind the \<^verbatim>\<open>void *handle\<close>. A call
  \<^verbatim>\<open>readAt(handle, offset, data, size)\<close> returns a count (or a negative error), the bytes
  it stored at the start of \<^verbatim>\<open>data\<close>, and the new state of the host object.
\<close>

record 'h CDataSource =
  handle :: 'h
  readAt :: "'h \<Rightarrow> off64_t \<Rightarrow> size_t \<Rightarrow> ssize_t \<times> uint8_t list \<times> 'h"

text \<open>
  \<^verbatim>\<open>DataSourceHelper\<close> holds the pointer \<^verbatim>\<open>mSource\<close>. The field \<open>readAt_calls\<close> is not in
  the class: it records, in order, the arguments of every call made through the
  \<^verbatim>\<open>mSource->readAt\<close> function pointer, so that "no read is performed" can be stated.
\<close>

record 'h DataSourceHelper =
  mSource :: "'h CDataSource"
  readAt_calls :: "(off64_t \<times> size_t) list"

text \<open>
  \<^verbatim>\<open>DataSourceHelper::readAt\<close>: the pass-through to the source (\<open>sz\<close> is the parameter
  \<^verbatim>\<open>size\<close>). The method is virtual and the readers call it as such; the model is of an
  object of the class \<^verbatim>\<open>DataSourceHelper\<close> itself. The result pairs the returned count with
  the bytes the source stored in the caller's buffer, at most \<open>sz\<close> of them.

  The callers' buffers are uninitialised locals, which a reader looks at only when the
  count returned is the full size. If the source then stored fewer bytes than it
  reported, the C++ reads an indeterminate byte, and the model's value (\<open>!\<close> beyond the
  end of the list) is unspecified as well: the statements about the value read assume
  that the source stored as many bytes as it reported.
\<close>

definition DataSourceHelper_readAt ::
  "'h DataSourceHelper \<Rightarrow> off64_t \<Rightarrow> size_t \<Rightarrow> (ssize_t \<times> uint8_t list) \<times> 'h DataSourceHelper" where
  "DataSourceHelper_readAt this offset sz =
     (case readAt (mSource this) (handle (mSource this)) offset sz of
        (n, data, h') \<Rightarrow>
          ((n, take sz data),
           this\<lparr>mSource := (mSource this)\<lparr>handle := h'\<rparr>,
                readAt_calls := readAt_calls this @ [(offset, sz)]\<rparr>))"

subsection \<open>Fixed-width readers\<close>

text \<open>
  The out-parameter \<^verbatim>\<open>*x\<close> of the fixed-width readers is written (\<^verbatim>\<open>*x = 0\<close>) before
  anything else happens and never read, so the model returns its final value and takes
  no initial one. Each reader returns \<open>((result, *x), this)\<close>.
\<close>

definition getUInt16 :: "'h DataSourceHelper \<Rightarrow> off64_t \<Rightarrow> (bool \<times> uint16_t) \<times> 'h DataSourceHelper" where
  "getUInt16 this offset =
     (let x = 0 in
      case DataSourceHelper_readAt this offset 2 of
        ((n, byte), this') \<Rightarrow>
          if n \<noteq> 2 then ((False, x), this')
          else ((True, ucast (push_bit 8 (ucast (byte ! 0) :: c_int) OR ucast (byte ! 1))), this'))"

definition getUInt24 :: "'h DataSourceHelper \<Rightarrow> off64_t \<Rightarrow> (bool \<times> uint32_t) \<times> 'h DataSourceHelper" where
  "getUInt24 this offset =
     (let x = 0 in
      case DataSourceHelper_readAt this offset 3 of
        ((n, byte), this') \<Rightarrow>
          if n \<noteq> 3 then ((False, x), this')
          else ((True, ucast (push_bit 16 (ucast (byte ! 0) :: c_int)
                              OR push_bit 8 (ucast (byte ! 1))
                              OR ucast (byte ! 2))), this'))"

text \<open>
  \<^verbatim>\<open>getUInt32\<close> and \<^verbatim>\<open>getUInt64\<close> let the source store into an integer object \<^verbatim>\<open>tmp\<close> and
  then read its value, which depends on the byte order of the machine. \<open>load_uint\<close>
  is the value of an unsigned integer object whose storage holds the given bytes, and
  \<^verbatim>\<open>ntohl\<close> converts from network (big-endian) to host order: the identity on a
  big-endian host, the exchange of the four bytes on a little-endian one. Every Android
  ABI is little-endian.
\<close>

datatype byte_order = LittleEndian | BigEndian

definition load_uint :: "byte_order \<Rightarrow> uint8_t list \<Rightarrow> 'a::len word" where
  "load_uint host bytes =
     (case host of
        LittleEndian \<Rightarrow> foldr (\<lambda>b acc. ucast b OR push_bit 8 acc) bytes 0
      | BigEndian \<Rightarrow> foldl (\<lambda>acc b. push_bit 8 acc OR ucast b) 0 bytes)"

definition swap32 :: "uint32_t \<Rightarrow> uint32_t" where
  "swap32 w = push_bit 24 w
              OR (push_bit 8 w AND 0x00ff0000)
              OR (drop_bit 8 w AND 0x0000ff00)
              OR drop_bit 24 w"

definition ntohl :: "byte_order \<Rightarrow> uint32_t \<Rightarrow> uint32_t" where
  "ntohl host w = (case host of LittleEndian \<Rightarrow> swap32 w | BigEndian \<Rightarrow> w)"

definition getUInt32 ::
  "byte_order \<Rightarrow> 'h DataSourceHelper \<Rightarrow> off64_t \<Rightarrow> (bool \<times> uint32_t) \<times> 'h DataSourceHelper" where
  "getUInt32 host this offset =
     (let x = 0 in
      case DataSourceHelper_readAt this offset 4 of
        ((n, buf), this') \<Rightarrow>
          if n \<noteq> 4 then ((False, x), this')
          else (let tmp = load_uint host buf :: uint32_t
                in ((True, ntohl host tmp), this')))"

definition getUInt64 ::
  "byte_order \<Rightarrow> 'h DataSourceHelper \<Rightarrow> off64_t \<Rightarrow> (bool \<times> uint64_t) \<times> 'h DataSourceHelper" where
  "getUInt64 host this offset =
     (let x = 0 in
      case DataSourceHelper_readAt this offset 8 of
        ((n, buf), this') \<Rightarrow>
          if n \<noteq> 8 then ((False, x), this')
          else (let tmp = load_uint host buf :: uint64_t
                in ((True, push_bit 32 (ucast (ntohl host (ucast (tmp AND 0xffffffff))) :: uint64_t)
                           OR ucast (ntohl host (ucast (drop_bit 32 tmp)))), this')))"

subsection \<open>Variable-width readers\<close>

text \<open>
  The variable-width readers do not write \<^verbatim>\<open>*x\<close> on every path, so they take the value
  \<open>x\<close> that \<^verbatim>\<open>*x\<close> holds before the call and return the value it holds afterwards.
\<close>

definition getUInt16Var ::
  "'h DataSourceHelper \<Rightarrow> off64_t \<Rightarrow> uint16_t \<Rightarrow> size_t \<Rightarrow> (bool \<times> uint16_t) \<times> 'h DataSourceHelper" where
  "getUInt16Var this offset x sz =
     (if sz = 2 then getUInt16 this offset
      else if sz = 1 then
        (case DataSourceHelper_readAt this offset 1 of
           ((n, tmp), this') \<Rightarrow>
             if n = 1 then ((True, ucast (tmp ! 0)), this')
             else ((False, x), this'))
      else ((False, x), this))"

definition getUInt32Var ::
  "byte_order \<Rightarrow> 'h DataSourceHelper \<Rightarrow> off64_t \<Rightarrow> uint32_t \<Rightarrow> size_t
     \<Rightarrow> (bool \<times> uint32_t) \<times> 'h DataSourceHelper" where
  "getUInt32Var host this offset x sz =
     (if sz = 4 then getUInt32 host this offset
      else if sz = 2 then
        (case getUInt16 this offset of
           ((ok, tmp), this') \<Rightarrow>
             if ok then ((True, ucast tmp), this')
             else ((False, x), this'))
      else ((False, x), this))"

definition getUInt64Var ::
  "byte_order \<Rightarrow> 'h DataSourceHelper \<Rightarrow> off64_t \<Rightarrow> uint64_t \<Rightarrow> size_t
     \<Rightarrow> (bool \<times> uint64_t) \<times> 'h DataSourceHelper" where
  "getUInt64Var host this offset x sz =
     (if sz = 8 then getUInt64 host this offset
      else if sz = 4 then
        (case getUInt32 host this offset of
           ((ok, tmp), this') \<Rightarrow>
             if ok then ((True, ucast tmp), this')
             else ((False, x), this'))
      else ((False, x), this))"

subsection \<open>The big-endian value of a byte sequence\<close>

text \<open>
  The spec's "big-endian interpretation (most-significant byte first)" of a sequence of
  bytes, as a number: each further byte shifts what was read so far up by one byte.
\<close>

definition big_endian :: "uint8_t list \<Rightarrow> nat" where
  "big_endian bytes = foldl (\<lambda>acc b. 256 * acc + unat b) 0 bytes"

text \<open>
  A source backed by a fixed array of bytes, used to run the readers: \<open>readAt\<close> stores
  the bytes available from \<open>offset\<close>, at most \<open>sz\<close> of them, and returns how many.
  \<open>memory_source mem calls\<close> is a helper over that source which has made the calls
  \<open>calls\<close> so far.
\<close>

definition memory_readAt :: "uint8_t list \<Rightarrow> off64_t \<Rightarrow> size_t \<Rightarrow> ssize_t \<times> uint8_t list \<times> uint8_t list" where
  "memory_readAt mem offset sz =
     (if sint offset < 0 then (-1, [], mem)
      else (let avail = take sz (drop (unat offset) mem)
            in (int (length avail), avail, mem)))"

definition memory_source :: "uint8_t list \<Rightarrow> (off64_t \<times> size_t) list \<Rightarrow> uint8_t list DataSourceHelper" where
  "memory_source mem calls = \<lparr>mSource = \<lparr>handle = mem, readAt = memory_readAt\<rparr>, readAt_calls = calls\<rparr>"

section \<open>\<^verbatim>\<open>MediaExtractorPluginHelper\<close> and \<^verbatim>\<open>wrap\<close>\<close>

text \<open>
  \<^verbatim>\<open>status_t\<close> is a 32-bit integer that this header only passes on.
  \<^verbatim>\<open>INVALID_OPERATION\<close> comes from \<^verbatim>\<open>utils/Errors.h\<close>, which is not part of the sources;
  the default \<^verbatim>\<open>setMediaCas\<close> below takes it as a parameter.
\<close>

type_synonym status_t = "32 word"

text \<open>
  An object of a class derived from \<^verbatim>\<open>MediaExtractorPluginHelper\<close>: the state \<open>members\<close>
  of its data members, and for each virtual method the function that the object's
  dynamic type provides. A method takes the state of the object and returns its result
  with the new state; \<^verbatim>\<open>flags\<close> is \<^verbatim>\<open>const\<close>. The reference parameter \<^verbatim>\<open>MetaDataBase& meta\<close>
  is passed in and returned, \<^verbatim>\<open>MediaTrack*\<close> is an abstract value of type \<open>'track\<close>, and
  \<^verbatim>\<open>casToken\<close> is passed as the bytes it points to.
\<close>

record ('s, 'track, 'meta) MediaExtractorPluginHelper =
  members :: 's
  countTracks :: "'s \<Rightarrow> size_t \<times> 's"
  getTrack :: "'s \<Rightarrow> size_t \<Rightarrow> 'track \<times> 's"
  getTrackMetaData :: "'s \<Rightarrow> 'meta \<Rightarrow> size_t \<Rightarrow> uint32_t \<Rightarrow> (status_t \<times> 'meta) \<times> 's"
  getMetaData :: "'s \<Rightarrow> 'meta \<Rightarrow> (status_t \<times> 'meta) \<times> 's"
  flags :: "'s \<Rightarrow> uint32_t"
  setMediaCas :: "'s \<Rightarrow> uint8_t list \<Rightarrow> size_t \<Rightarrow> status_t \<times> 's"
  name :: "'s \<Rightarrow> string \<times> 's"

text \<open>The enum \<^verbatim>\<open>Flags\<close> and the three methods the base class defines.\<close>

definition CAN_SEEK_BACKWARD :: c_int where "CAN_SEEK_BACKWARD = 1"
definition CAN_SEEK_FORWARD :: c_int where "CAN_SEEK_FORWARD = 2"
definition CAN_PAUSE :: c_int where "CAN_PAUSE = 4"
definition CAN_SEEK :: c_int where "CAN_SEEK = 8"

definition MediaExtractorPluginHelper_flags :: "'s \<Rightarrow> uint32_t" where
  "MediaExtractorPluginHelper_flags this =
     ucast (CAN_SEEK_BACKWARD OR CAN_SEEK_FORWARD OR CAN_SEEK OR CAN_PAUSE)"

definition MediaExtractorPluginHelper_setMediaCas ::
  "status_t \<Rightarrow> 's \<Rightarrow> uint8_t list \<Rightarrow> size_t \<Rightarrow> status_t \<times> 's" where
  "MediaExtractorPluginHelper_setMediaCas INVALID_OPERATION this casToken sz = (INVALID_OPERATION, this)"

definition MediaExtractorPluginHelper_name :: "'s \<Rightarrow> string \<times> 's" where
  "MediaExtractorPluginHelper_name this = (''<unspecified>'', this)"

text \<open>
  Objects live in a store, and a pointer is null or the address of a cell of the store.
  \<open>invoke method p\<close> is the call \<^verbatim>\<open>p->method(...)\<close> in a given store: it runs the method of
  the object at \<open>p\<close> on that object's state and stores the new state. Calling through a
  null pointer or through a pointer to a destroyed object is undefined behaviour, the
  value \<open>None\<close>.
\<close>

datatype pointer = nullptr | Ptr nat

type_synonym ('s, 'track, 'meta) store = "nat \<Rightarrow> ('s, 'track, 'meta) MediaExtractorPluginHelper option"

definition invoke ::
  "(('s, 'track, 'meta) MediaExtractorPluginHelper \<Rightarrow> 's \<Rightarrow> 'r \<times> 's) \<Rightarrow> pointer
     \<Rightarrow> ('s, 'track, 'meta) store \<Rightarrow> ('r \<times> ('s, 'track, 'meta) store) option" where
  "invoke method p st =
     (case p of
        nullptr \<Rightarrow> None
      | Ptr a \<Rightarrow>
          (case st a of
             None \<Rightarrow> None
           | Some obj \<Rightarrow>
               (case method obj (members obj) of
                  (r, s') \<Rightarrow> Some (r, st(a \<mapsto> obj\<lparr>members := s'\<rparr>)))))"

text \<open>\<^verbatim>\<open>delete p\<close>: nothing for a null pointer, otherwise the object is destroyed.\<close>

definition delete :: "pointer \<Rightarrow> ('s, 'track, 'meta) store \<Rightarrow> ('s, 'track, 'meta) store option" where
  "delete p st =
     (case p of
        nullptr \<Rightarrow> Some st
      | Ptr a \<Rightarrow> (case st a of None \<Rightarrow> None | Some obj \<Rightarrow> Some (st(a := None))))"

text \<open>
  Modelled from the spec: the struct \<^verbatim>\<open>CMediaExtractor\<close> is declared in
  \<^verbatim>\<open>media/MediaExtractorPluginApi.h\<close>, which is not part of the sources. The spec gives
  its layout: an opaque data pointer and the function-pointer slots free, countTracks,
  getTrack, getTrackMetaData, getMetaData, flags, setMediaCas, name; the parameters of
  each slot are those of the lambda that \<^verbatim>\<open>wrap\<close> stores in it. A slot holds \<open>None\<close> for a
  null function pointer.
\<close>

record ('s, 'track, 'meta) CMediaExtractor =
  data :: pointer
  free :: "(pointer \<Rightarrow> ('s, 'track, 'meta) store \<Rightarrow> ('s, 'track, 'meta) store option) option"
  countTracks :: "(pointer \<Rightarrow> ('s, 'track, 'meta) store
                    \<Rightarrow> (size_t \<times> ('s, 'track, 'meta) store) option) option"
  getTrack :: "(pointer \<Rightarrow> size_t \<Rightarrow> ('s, 'track, 'meta) store
                 \<Rightarrow> ('track \<times> ('s, 'track, 'meta) store) option) option"
  getTrackMetaData :: "(pointer \<Rightarrow> 'meta \<Rightarrow> size_t \<Rightarrow> uint32_t \<Rightarrow> ('s, 'track, 'meta) store
                         \<Rightarrow> ((status_t \<times> 'meta) \<times> ('s, 'track, 'meta) store) option) option"
  getMetaData :: "(pointer \<Rightarrow> 'meta \<Rightarrow> ('s, 'track, 'meta) store
                    \<Rightarrow> ((status_t \<times> 'meta) \<times> ('s, 'track, 'meta) store) option) option"
  flags :: "(pointer \<Rightarrow> ('s, 'track, 'meta) store
              \<Rightarrow> (uint32_t \<times> ('s, 'track, 'meta) store) option) option"
  setMediaCas :: "(pointer \<Rightarrow> uint8_t list \<Rightarrow> size_t \<Rightarrow> ('s, 'track, 'meta) store
                    \<Rightarrow> (status_t \<times> ('s, 'track, 'meta) store) option) option"
  name :: "(pointer \<Rightarrow> ('s, 'track, 'meta) store
             \<Rightarrow> (string \<times> ('s, 'track, 'meta) store) option) option"

text \<open>
  \<^verbatim>\<open>wrap\<close>. The argument \<open>wrapper\<close> is the block that \<^verbatim>\<open>malloc\<close> returned, with whatever its
  fields hold; the function assigns the fields one after the other, as the source does,
  and returns the block. (The source does not test the result of \<^verbatim>\<open>malloc\<close>; the model
  starts where the allocation has succeeded.)
\<close>

definition wrap ::
  "('s, 'track, 'meta) CMediaExtractor \<Rightarrow> pointer \<Rightarrow> ('s, 'track, 'meta) CMediaExtractor" where
  "wrap wrapper extractor =
     (let wrapper = wrapper\<lparr>data := extractor\<rparr>;
          wrapper = wrapper\<lparr>free := Some (\<lambda>data. delete data)\<rparr>;
          wrapper = wrapper\<lparr>countTracks := Some (\<lambda>data.
                      invoke (\<lambda>obj. MediaExtractorPluginHelper.countTracks obj) data)\<rparr>;
          wrapper = wrapper\<lparr>getTrack := Some (\<lambda>data index.
                      invoke (\<lambda>obj this. MediaExtractorPluginHelper.getTrack obj this index) data)\<rparr>;
          wrapper = wrapper\<lparr>getTrackMetaData := Some (\<lambda>data meta index flags.
                      invoke (\<lambda>obj this.
                        MediaExtractorPluginHelper.getTrackMetaData obj this meta index flags) data)\<rparr>;
          wrapper = wrapper\<lparr>getMetaData := Some (\<lambda>data meta.
                      invoke (\<lambda>obj this. MediaExtractorPluginHelper.getMetaData obj this meta) data)\<rparr>;
          wrapper = wrapper\<lparr>flags := Some (\<lambda>data.
                      invoke (\<lambda>obj this. (MediaExtractorPluginHelper.flags obj this, this)) data)\<rparr>;
          wrapper = wrapper\<lparr>setMediaCas := Some (\<lambda>data casToken sz.
                      invoke (\<lambda>obj this.
                        MediaExtractorPluginHelper.setMediaCas obj this casToken sz) data)\<rparr>;
          wrapper = wrapper\<lparr>name := Some (\<lambda>data.
                      invoke (\<lambda>obj. MediaExtractorPluginHelper.name obj) data)\<rparr>
      in wrapper)"

text \<open>
  The host's call through a slot, \<^verbatim>\<open>w->slot(w->data, args)\<close>: calling a null function
  pointer is undefined behaviour.
\<close>

definition through :: "'f option \<Rightarrow> ('f \<Rightarrow> 'r option) \<Rightarrow> 'r option" where
  "through slot call = (case slot of None \<Rightarrow> None | Some f \<Rightarrow> call f)"

text \<open>
  What a method called directly on the object \<open>obj\<close> stored at address \<open>a\<close> hands back
  when the method itself yields \<open>outcome\<close>, a result and a new state of the object: that
  result, and the store in which the object has the new state.
\<close>

definition returning ::
  "('s, 'track, 'meta) MediaExtractorPluginHelper \<Rightarrow> nat \<Rightarrow> ('s, 'track, 'meta) store
     \<Rightarrow> 'r \<times> 's \<Rightarrow> ('r \<times> ('s, 'track, 'meta) store) option" where
  "returning obj a st outcome =
     (case outcome of (r, s') \<Rightarrow> Some (r, st(a \<mapsto> obj\<lparr>members := s'\<rparr>)))"

text \<open>
  A derived class that overrides the four pure virtual methods only, used to run the
  wrapper. Its state counts the calls made to \<^verbatim>\<open>countTracks\<close>; a track is its index, the
  metadata is a list of numbers, \<^verbatim>\<open>getTrackMetaData\<close> fails with the status -22 for an index
  it does not have, and -38 stands for \<^verbatim>\<open>INVALID_OPERATION\<close>. \<open>plain_store calls\<close> holds one
  such object, at address 5, and \<open>null_wrapper\<close> is a block whose fields are all null.
\<close>

definition plain_extractor :: "nat \<Rightarrow> (nat, nat, nat list) MediaExtractorPluginHelper" where
  "plain_extractor calls =
     \<lparr>members = calls,
      MediaExtractorPluginHelper.countTracks = (\<lambda>this. (2, this + 1)),
      MediaExtractorPluginHelper.getTrack = (\<lambda>this index. (index, this)),
      MediaExtractorPluginHelper.getTrackMetaData =
        (\<lambda>this meta index flags. (if index < 2 then (0, index # meta) else (- 22, meta), this)),
      MediaExtractorPluginHelper.getMetaData = (\<lambda>this meta. ((0, 7 # meta), this)),
      MediaExtractorPluginHelper.flags = MediaExtractorPluginHelper_flags,
      MediaExtractorPluginHelper.setMediaCas = MediaExtractorPluginHelper_setMediaCas (- 38),
      MediaExtractorPluginHelper.name = MediaExtractorPluginHelper_name\<rparr>"

definition plain_store :: "nat \<Rightarrow> (nat, nat, nat list) store" where
  "plain_store calls = Map.empty(5 \<mapsto> plain_extractor calls)"

definition null_wrapper :: "(nat, nat, nat list) CMediaExtractor" where
  "null_wrapper =
     \<lparr>data = nullptr, free = None, countTracks = None, getTrack = None, getTrackMetaData = None,
      getMetaData = None, flags = None, setMediaCas = None, name = None\<rparr>"

section \<open>\<^verbatim>\<open>constUUID\<close>\<close>

text \<open>
  \<^verbatim>\<open>constUUID\<close> is evaluated by the compiler (the macro \<^verbatim>\<open>UUID\<close> initialises a
  \<^verbatim>\<open>constexpr\<close> variable with it), so its outcome is either a value or a failed build:
  a failed \<^verbatim>\<open>static_assert\<close>, or an evaluation that reaches something that is not a
  constant expression. The latter is the call of \<^verbatim>\<open>invalid_uuid_string\<close>, which is declared
  but neither \<^verbatim>\<open>constexpr\<close> nor defined, and a read beyond the end of the array.
  Each failure carries the message of the source.
\<close>

datatype build_failure =
  static_assert_failed string
  | not_a_constant_expression string

definition invalid_uuid_string :: "string \<Rightarrow> build_failure + 'a" where
  "invalid_uuid_string msg = Inl (not_a_constant_expression msg)"

text \<open>
  The argument \<open>s\<close> is the array \<^verbatim>\<open>const T (&s)[N]\<close>, so \<open>N\<close> is \<open>length s\<close>; for a string
  literal the array ends with the terminator. The comparisons and subtractions of
  \<^verbatim>\<open>_digitAt_\<close> are made on the characters promoted to \<^verbatim>\<open>int\<close>. A character above 127
  is negative where \<^verbatim>\<open>char\<close> is signed and is its code where \<^verbatim>\<open>char\<close> is unsigned: either
  way it lies in none of the three ranges, so the code of the character is used here.
  \<^verbatim>\<open>_hexByteAt_\<close> needs both of its digits, in whichever order the compiler evaluates
  them: the failure is the same.
  (The names of the source start with an underscore, which an Isabelle name cannot.)
\<close>

definition digitAt :: "string \<Rightarrow> nat \<Rightarrow> build_failure + uint8_t" where
  "digitAt s n =
     (if length s \<le> n then Inl (not_a_constant_expression ''read past the end of the array'')
      else let c = of_char (s ! n) :: int in
        if c \<ge> of_char CHR ''0'' \<and> c \<le> of_char CHR ''9'' then Inr (of_int (c - of_char CHR ''0''))
        else if c \<ge> of_char CHR ''a'' \<and> c \<le> of_char CHR ''f'' then Inr (of_int (c - of_char CHR ''a'' + 10))
        else if c \<ge> of_char CHR ''A'' \<and> c \<le> of_char CHR ''F'' then Inr (of_int (c - of_char CHR ''A'' + 10))
        else invalid_uuid_string ''uuid: bad digits'')"

definition hexByteAt :: "string \<Rightarrow> nat \<Rightarrow> build_failure + uint8_t" where
  "hexByteAt s n =
     (case digitAt s n of
        Inl e \<Rightarrow> Inl e
      | Inr hi \<Rightarrow>
          (case digitAt s (n + 1) of
             Inl e \<Rightarrow> Inl e
           | Inr lo \<Rightarrow> Inr (ucast (push_bit 4 (ucast hi :: c_int) + ucast lo))))"

definition assertIsDash :: "char \<Rightarrow> build_failure + bool" where
  "assertIsDash c = (if c = CHR ''-'' then Inr True else invalid_uuid_string ''Wrong format'')"

text \<open>
  Modelled from the spec: \<^verbatim>\<open>media_uuid_t\<close> is declared in
  \<^verbatim>\<open>media/MediaExtractorPluginApi.h\<close>, which is not part of the sources; the spec describes
  it as an immutable 16-byte identifier, and the source initialises it from one braced
  list of 16 bytes.
\<close>

record media_uuid_t =
  octets :: "uint8_t list"

text \<open>
  The comma operator evaluates its operands from left to right, and so does a braced
  initialiser list: \<open>andThen\<close> continues after an operand that has a value and stops at
  the first that has none, and \<open>inOrder\<close> does so along a list.
\<close>

definition andThen :: "build_failure + 'a \<Rightarrow> build_failure + 'b \<Rightarrow> build_failure + 'b" where
  "andThen first rest = (case first of Inl e \<Rightarrow> Inl e | Inr v \<Rightarrow> rest)"

fun inOrder :: "(build_failure + 'a) list \<Rightarrow> build_failure + 'a list" where
  "inOrder [] = Inr []"
| "inOrder (x # xs) =
     (case x of
        Inl e \<Rightarrow> Inl e
      | Inr v \<Rightarrow> (case inOrder xs of Inl e \<Rightarrow> Inl e | Inr vs \<Rightarrow> Inr (v # vs)))"

definition constUUID :: "string \<Rightarrow> build_failure + media_uuid_t" where
  "constUUID s =
     (if length s \<noteq> 37 then Inl (static_assert_failed ''uuid: wrong length'')
      else
        andThen (assertIsDash (s ! 8))
       (andThen (assertIsDash (s ! 13))
       (andThen (assertIsDash (s ! 18))
       (andThen (assertIsDash (s ! 23))
         (case inOrder
                 [hexByteAt s 0, hexByteAt s 2, hexByteAt s 4, hexByteAt s 6,
                  hexByteAt s 9, hexByteAt s 11,
                  hexByteAt s 14, hexByteAt s 16,
                  hexByteAt s 19, hexByteAt s 21,
                  hexByteAt s 24, hexByteAt s 26, hexByteAt s 28, hexByteAt s 30,
                  hexByteAt s 32, hexByteAt s 34] of
            Inl e \<Rightarrow> Inl e
          | Inr bytes \<Rightarrow> Inr \<lparr>octets = bytes\<rparr>)))))"

text \<open>A string literal as the array the compiler stores: its characters and the terminator.\<close>

definition literal :: "string \<Rightarrow> string" where
  "literal str = str @ [CHR 0x00]"

subsection \<open>The accepted inputs, in the words of the spec\<close>

text \<open>
  The spec accepts a stored literal of length exactly 37 in which the characters at
  indices 8, 13, 18 and 23 are \<^verbatim>\<open>-\<close> and every character consumed as a hex digit is in
  \<^verbatim>\<open>0\<close>-\<^verbatim>\<open>9\<close>, \<^verbatim>\<open>a\<close>-\<^verbatim>\<open>f\<close> or \<^verbatim>\<open>A\<close>-\<^verbatim>\<open>F\<close>. The characters consumed as hex digits are those of
  the five groups: all of the first 36 but the four separators.
\<close>

definition between :: "char \<Rightarrow> char \<Rightarrow> char \<Rightarrow> bool" where
  "between lo hi c = ((of_char lo :: nat) \<le> of_char c \<and> (of_char c :: nat) \<le> of_char hi)"

definition is_hex_digit :: "char \<Rightarrow> bool" where
  "is_hex_digit c =
     (between CHR ''0'' CHR ''9'' c \<or> between CHR ''a'' CHR ''f'' c \<or> between CHR ''A'' CHR ''F'' c)"

definition separator_positions :: "nat list" where
  "separator_positions = [8, 13, 18, 23]"

definition digit_positions :: "nat list" where
  "digit_positions = filter (\<lambda>i. i \<notin> set separator_positions) [0..<36]"

definition valid_uuid_literal :: "string \<Rightarrow> bool" where
  "valid_uuid_literal s =
     (length s = 37 \<and>
      list_all (\<lambda>i. s ! i = CHR ''-'') separator_positions \<and>
      list_all (\<lambda>i. is_hex_digit (s ! i)) digit_positions)"

text \<open>
  The spec's output: each byte is formed from two consecutive hex digits, the first being
  the high nibble, from left to right across the five groups, the separators skipped.
  So byte \<open>k\<close> comes from the digits at positions \<open>2 * k\<close> and \<open>2 * k + 1\<close> among those
  consumed as hex digits. A hex digit counts the same in either case.
\<close>

definition digit_value :: "char \<Rightarrow> nat" where
  "digit_value c =
     (if between CHR ''0'' CHR ''9'' c then of_char c - of_char CHR ''0''
      else if between CHR ''a'' CHR ''f'' c then 10 + (of_char c - of_char CHR ''a'')
      else 10 + (of_char c - of_char CHR ''A''))"

definition uuid_of_literal :: "string \<Rightarrow> uint8_t list" where
  "uuid_of_literal s =
     map (\<lambda>k. of_nat (16 * digit_value (s ! (digit_positions ! (2 * k)))
                      + digit_value (s ! (digit_positions ! (2 * k + 1)))))
       [0..<16]"

section \<open>Properties of the readers\<close>

subsection \<open>Bytes, shifts and the big-endian value\<close>

lemma push_byte_disjoint:
  fixes a :: "'a::len word" and b :: uint8_t
  shows "push_bit 8 a OR ucast b = push_bit 8 a + ucast b"
proof -
  have "push_bit 8 a AND (ucast b :: 'a word) = 0"
    by (rule bit_word_eqI) (auto simp: bit_simps dest: bit_imp_le_length)
  then show ?thesis
    by (simp add: disjunctive_add_eq_or)
qed

lemma unat_push_byte:
  fixes a :: "'a::len word" and b :: uint8_t
  assumes "256 * unat a + 255 < 2 ^ LENGTH('a)"
  shows "unat (push_bit 8 a OR ucast b) = 256 * unat a + unat b"
proof -
  have b: "unat b < 256"
    using unsigned_less [of b, where ?'a = nat] by simp
  have ub: "unat (ucast b :: 'a word) = unat b"
    using assms b by (simp add: unsigned_ucast_eq take_bit_nat_eq_self)
  have "unat (push_bit 8 a) = take_bit LENGTH('a) (push_bit 8 (unat a))"
    by (rule unsigned_push_bit_eq)
  also have "\<dots> = take_bit LENGTH('a) (256 * unat a)"
    by (simp add: push_bit_eq_mult mult.commute)
  also have "\<dots> = 256 * unat a"
    using assms by (intro take_bit_nat_eq_self) simp
  finally have pa: "unat (push_bit 8 a) = 256 * unat a" .
  have "unat (push_bit 8 a) + unat (ucast b :: 'a word) < 2 ^ LENGTH('a)"
    using assms b by (simp add: ub pa)
  then have "unat (push_bit 8 a + ucast b) = unat (push_bit 8 a) + unat (ucast b :: 'a word)"
    by (simp add: unat_add_lem)
  then show ?thesis
    by (simp add: push_byte_disjoint ub pa)
qed

lemma big_endian_snoc: "big_endian (bs @ [b]) = 256 * big_endian bs + unat b"
  by (simp add: big_endian_def)

lemma big_endian_less: "big_endian bs < 2 ^ (8 * length bs)"
proof (induction bs rule: rev_induct)
  case Nil
  show ?case by (simp add: big_endian_def)
next
  case (snoc b bs)
  have "unat b < 256"
    using unsigned_less [of b, where ?'a = nat] by simp
  moreover have "big_endian bs + 1 \<le> 2 ^ (8 * length bs)"
    using snoc.IH by simp
  then have "256 * (big_endian bs + 1) \<le> 256 * 2 ^ (8 * length bs)"
    by (rule mult_le_mono2)
  ultimately show ?case
    by (simp add: big_endian_snoc power_add)
qed

lemma load_BigEndian_snoc:
  "load_uint BigEndian (bs @ [b]) = push_bit 8 (load_uint BigEndian bs) OR ucast b"
  by (simp add: load_uint_def)

lemma unat_load_BigEndian:
  "8 * length bs \<le> LENGTH('a::len) \<Longrightarrow> unat (load_uint BigEndian bs :: 'a word) = big_endian bs"
proof (induction bs rule: rev_induct)
  case Nil
  show ?case by (simp add: load_uint_def big_endian_def)
next
  case (snoc b bs)
  let ?a = "load_uint BigEndian bs :: 'a word"
  have ih: "unat ?a = big_endian bs"
    using snoc by simp
  have "256 * big_endian bs + 255 < 2 ^ (8 * length (bs @ [b]))"
    using big_endian_less [of "bs @ [255]"] by (simp add: big_endian_snoc)
  also have "\<dots> \<le> 2 ^ LENGTH('a)"
    using snoc.prems by (intro power_increasing) simp_all
  finally have "256 * unat ?a + 255 < 2 ^ LENGTH('a)"
    by (simp add: ih)
  then have "unat (push_bit 8 ?a OR ucast b) = 256 * unat ?a + unat b"
    by (rule unat_push_byte)
  then show ?case
    by (simp add: load_BigEndian_snoc big_endian_snoc ih)
qed

lemma load_LittleEndian_4:
  "load_uint LittleEndian [b0, b1, b2, b3] =
     ucast b0 OR push_bit 8 (ucast b1) OR push_bit 16 (ucast b2) OR push_bit 24 (ucast b3)"
  by (simp add: load_uint_def push_bit_or ac_simps)

lemma load_LittleEndian_8:
  "load_uint LittleEndian [b0, b1, b2, b3, b4, b5, b6, b7] =
     ucast b0 OR push_bit 8 (ucast b1) OR push_bit 16 (ucast b2) OR push_bit 24 (ucast b3)
     OR push_bit 32 (ucast b4) OR push_bit 40 (ucast b5) OR push_bit 48 (ucast b6) OR push_bit 56 (ucast b7)"
  by (simp add: load_uint_def push_bit_or ac_simps)

lemma load_BigEndian_4:
  "load_uint BigEndian [b0, b1, b2, b3] =
     push_bit 24 (ucast b0) OR push_bit 16 (ucast b1) OR push_bit 8 (ucast b2) OR ucast b3"
  by (simp add: load_uint_def push_bit_or ac_simps)

lemma load_BigEndian_8:
  "load_uint BigEndian [b0, b1, b2, b3, b4, b5, b6, b7] =
     push_bit 56 (ucast b0) OR push_bit 48 (ucast b1) OR push_bit 40 (ucast b2) OR push_bit 32 (ucast b3)
     OR push_bit 24 (ucast b4) OR push_bit 16 (ucast b5) OR push_bit 8 (ucast b6) OR ucast b7"
  by (simp add: load_uint_def push_bit_or ac_simps)

lemma mask_ff0000: "(0x00ff0000 :: uint32_t) = push_bit 16 (mask 8)"
  by (simp add: mask_eq_exp_minus_1 push_bit_eq_mult)

lemma mask_ff00: "(0x0000ff00 :: uint32_t) = push_bit 8 (mask 8)"
  by (simp add: mask_eq_exp_minus_1 push_bit_eq_mult)

lemma mask_32: "(0xffffffff :: uint64_t) = mask 32"
  by (simp add: mask_eq_exp_minus_1)

lemma expr16:
  "(ucast (push_bit 8 (ucast (b0::uint8_t) :: c_int) OR ucast (b1::uint8_t)) :: uint16_t)
     = load_uint BigEndian [b0, b1]"
  unfolding load_uint_def
  by (rule bit_word_eqI) (auto simp: bit_simps)

lemma expr24:
  "(ucast (push_bit 16 (ucast (b0::uint8_t) :: c_int) OR push_bit 8 (ucast (b1::uint8_t)) OR ucast (b2::uint8_t)) :: uint32_t)
     = load_uint BigEndian [b0, b1, b2]"
  unfolding load_uint_def
  by (rule bit_word_eqI) (auto simp: bit_simps)

lemma swap32_byte0:
  "push_bit 24 (ucast (b0::uint8_t) OR push_bit 8 (ucast (b1::uint8_t)) OR push_bit 16 (ucast (b2::uint8_t))
                OR push_bit 24 (ucast (b3::uint8_t)) :: uint32_t) = push_bit 24 (ucast b0)"
  by (rule bit_word_eqI) (auto simp: bit_simps)

lemma swap32_byte1:
  "push_bit 8 (ucast (b0::uint8_t) OR push_bit 8 (ucast (b1::uint8_t)) OR push_bit 16 (ucast (b2::uint8_t))
               OR push_bit 24 (ucast (b3::uint8_t)) :: uint32_t) AND 0x00ff0000 = push_bit 16 (ucast b1)"
  unfolding mask_ff0000
  by (rule bit_word_eqI) (auto simp: bit_simps dest: bit_imp_le_length)

lemma swap32_byte2:
  "drop_bit 8 (ucast (b0::uint8_t) OR push_bit 8 (ucast (b1::uint8_t)) OR push_bit 16 (ucast (b2::uint8_t))
               OR push_bit 24 (ucast (b3::uint8_t)) :: uint32_t) AND 0x0000ff00 = push_bit 8 (ucast b2)"
  unfolding mask_ff00
  by (rule bit_word_eqI) (auto simp: bit_simps dest: bit_imp_le_length)

lemma swap32_byte3:
  "drop_bit 24 (ucast (b0::uint8_t) OR push_bit 8 (ucast (b1::uint8_t)) OR push_bit 16 (ucast (b2::uint8_t))
                OR push_bit 24 (ucast (b3::uint8_t)) :: uint32_t) = ucast b3"
  by (rule bit_word_eqI) (auto simp: bit_simps dest: bit_imp_le_length)

lemma swap32_load:
  "swap32 (load_uint LittleEndian [b0, b1, b2, b3]) = load_uint BigEndian [b0, b1, b2, b3]"
  unfolding swap32_def load_LittleEndian_4 load_BigEndian_4
    swap32_byte0 swap32_byte1 swap32_byte2 swap32_byte3 ..

lemma ntohl_load:
  "ntohl host (load_uint host [b0, b1, b2, b3]) = load_uint BigEndian [b0, b1, b2, b3]"
  by (cases host) (simp_all add: ntohl_def swap32_load)

lemma low_half_LittleEndian:
  "(ucast ((load_uint LittleEndian [b0, b1, b2, b3, b4, b5, b6, b7] :: uint64_t) AND 0xffffffff) :: uint32_t)
     = load_uint LittleEndian [b0, b1, b2, b3]"
  unfolding load_LittleEndian_8 load_LittleEndian_4 mask_32
  by (rule bit_word_eqI) (auto simp: bit_simps dest: bit_imp_le_length)

lemma high_half_LittleEndian:
  "(ucast (drop_bit 32 (load_uint LittleEndian [b0, b1, b2, b3, b4, b5, b6, b7] :: uint64_t)) :: uint32_t)
     = load_uint LittleEndian [b4, b5, b6, b7]"
  unfolding load_LittleEndian_8 load_LittleEndian_4
  by (rule bit_word_eqI) (auto simp: bit_simps dest: bit_imp_le_length)

lemma ucast_byte_32_64:
  "k \<le> 24 \<Longrightarrow> (ucast (push_bit k (ucast (b::uint8_t)) :: uint32_t) :: uint64_t) = push_bit k (ucast b)"
  by (rule bit_word_eqI) (auto simp: bit_simps dest: bit_imp_le_length)

lemma ucast_byte_32_64_0: "(ucast (ucast (b::uint8_t) :: uint32_t) :: uint64_t) = ucast b"
  using ucast_byte_32_64 [of 0 b] by simp

lemma halves_BigEndian:
  "push_bit 32 (ucast (load_uint BigEndian [b0, b1, b2, b3] :: uint32_t) :: uint64_t)
     OR ucast (load_uint BigEndian [b4, b5, b6, b7] :: uint32_t)
   = load_uint BigEndian [b0, b1, b2, b3, b4, b5, b6, b7]"
  unfolding load_BigEndian_8 load_BigEndian_4
  by (simp add: unsigned_or_eq push_bit_or ucast_byte_32_64 ucast_byte_32_64_0 ac_simps)

lemma expr64_LittleEndian:
  "push_bit 32 (ucast (ntohl LittleEndian (ucast ((load_uint LittleEndian [b0, b1, b2, b3, b4, b5, b6, b7] :: uint64_t)
                                                   AND 0xffffffff))) :: uint64_t)
     OR ucast (ntohl LittleEndian (ucast (drop_bit 32 (load_uint LittleEndian [b0, b1, b2, b3, b4, b5, b6, b7] :: uint64_t))))
   = load_uint BigEndian [b0, b1, b2, b3, b4, b5, b6, b7]"
  unfolding low_half_LittleEndian high_half_LittleEndian ntohl_load halves_BigEndian ..

lemma load_BigEndian_of_nat:
  "8 * length bs \<le> LENGTH('a::len) \<Longrightarrow> (load_uint BigEndian bs :: 'a word) = of_nat (big_endian bs)"
proof -
  assume "8 * length bs \<le> LENGTH('a)"
  then have "unat (load_uint BigEndian bs :: 'a word) = big_endian bs"
    by (rule unat_load_BigEndian)
  then have "(of_nat (unat (load_uint BigEndian bs :: 'a word)) :: 'a word) = of_nat (big_endian bs)"
    by simp
  then show ?thesis
    by simp
qed

lemma length2E: "length xs = 2 \<Longrightarrow> xs = [xs ! 0, xs ! 1]"
  by (cases xs; cases "tl xs") auto

lemma length3E: "length xs = 3 \<Longrightarrow> xs = [xs ! 0, xs ! 1, xs ! 2]"
  by (auto simp: list_eq_iff_nth_eq nth_Cons' less_Suc_eq eval_nat_numeral)

lemma length4E: "length xs = 4 \<Longrightarrow> xs = [xs ! 0, xs ! 1, xs ! 2, xs ! 3]"
  by (auto simp: list_eq_iff_nth_eq nth_Cons' less_Suc_eq eval_nat_numeral)

lemma length8E: "length xs = 8 \<Longrightarrow> xs = [xs ! 0, xs ! 1, xs ! 2, xs ! 3, xs ! 4, xs ! 5, xs ! 6, xs ! 7]"
  by (auto simp: list_eq_iff_nth_eq nth_Cons' less_Suc_eq eval_nat_numeral)

subsection \<open>What each fixed-width reader returns\<close>

lemma getUInt16_fail:
  "DataSourceHelper_readAt this offset 2 = ((n, bytes), this') \<Longrightarrow> n \<noteq> 2
     \<Longrightarrow> getUInt16 this offset = ((False, 0), this')"
  by (simp add: getUInt16_def)

lemma getUInt16_ok:
  assumes "DataSourceHelper_readAt this offset 2 = ((2, bytes), this')" and "length bytes = 2"
  shows "getUInt16 this offset = ((True, load_uint BigEndian bytes), this')"
proof -
  have "bytes = [bytes ! 0, bytes ! 1]"
    using assms(2) by (rule length2E)
  then have "load_uint BigEndian bytes
      = (ucast (push_bit 8 (ucast (bytes ! 0) :: c_int) OR ucast (bytes ! 1)) :: uint16_t)"
    using expr16 [of "bytes ! 0" "bytes ! 1"] by simp
  then show ?thesis
    using assms(1) by (simp add: getUInt16_def)
qed

lemma getUInt24_fail:
  "DataSourceHelper_readAt this offset 3 = ((n, bytes), this') \<Longrightarrow> n \<noteq> 3
     \<Longrightarrow> getUInt24 this offset = ((False, 0), this')"
  by (simp add: getUInt24_def)

lemma getUInt24_ok:
  assumes "DataSourceHelper_readAt this offset 3 = ((3, bytes), this')" and "length bytes = 3"
  shows "getUInt24 this offset = ((True, load_uint BigEndian bytes), this')"
proof -
  have "bytes = [bytes ! 0, bytes ! 1, bytes ! 2]"
    using assms(2) by (rule length3E)
  then have "load_uint BigEndian bytes
      = (ucast (push_bit 16 (ucast (bytes ! 0) :: c_int) OR push_bit 8 (ucast (bytes ! 1))
                OR ucast (bytes ! 2)) :: uint32_t)"
    using expr24 [of "bytes ! 0" "bytes ! 1" "bytes ! 2"] by simp
  then show ?thesis
    using assms(1) by (simp add: getUInt24_def)
qed

lemma getUInt32_fail:
  "DataSourceHelper_readAt this offset 4 = ((n, bytes), this') \<Longrightarrow> n \<noteq> 4
     \<Longrightarrow> getUInt32 host this offset = ((False, 0), this')"
  by (simp add: getUInt32_def)

lemma getUInt32_ok:
  assumes "DataSourceHelper_readAt this offset 4 = ((4, bytes), this')" and "length bytes = 4"
  shows "getUInt32 host this offset = ((True, load_uint BigEndian bytes), this')"
proof -
  have "bytes = [bytes ! 0, bytes ! 1, bytes ! 2, bytes ! 3]"
    using assms(2) by (rule length4E)
  then have "ntohl host (load_uint host bytes) = load_uint BigEndian bytes"
    using ntohl_load [of host "bytes ! 0" "bytes ! 1" "bytes ! 2" "bytes ! 3"] by simp
  then show ?thesis
    using assms(1) by (simp add: getUInt32_def)
qed

lemma getUInt64_fail:
  "DataSourceHelper_readAt this offset 8 = ((n, bytes), this') \<Longrightarrow> n \<noteq> 8
     \<Longrightarrow> getUInt64 host this offset = ((False, 0), this')"
  by (simp add: getUInt64_def)

lemma getUInt64_ok:
  assumes "DataSourceHelper_readAt this offset 8 = ((8, bytes), this')" and "length bytes = 8"
  shows "getUInt64 LittleEndian this offset = ((True, load_uint BigEndian bytes), this')"
proof -
  let ?tmp = "load_uint LittleEndian bytes :: uint64_t"
  have "bytes = [bytes ! 0, bytes ! 1, bytes ! 2, bytes ! 3, bytes ! 4, bytes ! 5, bytes ! 6, bytes ! 7]"
    using assms(2) by (rule length8E)
  then have "push_bit 32 (ucast (ntohl LittleEndian (ucast (?tmp AND 0xffffffff))) :: uint64_t)
               OR ucast (ntohl LittleEndian (ucast (drop_bit 32 ?tmp)))
             = load_uint BigEndian bytes"
    using expr64_LittleEndian [of "bytes ! 0" "bytes ! 1" "bytes ! 2" "bytes ! 3"
        "bytes ! 4" "bytes ! 5" "bytes ! 6" "bytes ! 7"] by simp
  then show ?thesis
    using assms(1) by (simp add: getUInt64_def)
qed

text \<open>
  Claim C1. For each fixed-width reader \<^verbatim>\<open>getUInt16\<close>, \<^verbatim>\<open>getUInt24\<close>, \<^verbatim>\<open>getUInt32\<close>,
  \<^verbatim>\<open>getUInt64\<close> and every offset: when the source's \<^verbatim>\<open>readAt\<close> returns exactly the 2, 3, 4
  or 8 bytes asked for, the reader returns true and stores in \<^verbatim>\<open>*x\<close> the big-endian value
  of those bytes, most significant byte first (a value that fits the output, so that
  nothing is lost in storing it); when \<^verbatim>\<open>readAt\<close> returns fewer bytes, the reader returns
  false and \<^verbatim>\<open>*x\<close> is 0. \<^verbatim>\<open>getUInt16\<close>, \<^verbatim>\<open>getUInt24\<close> and \<^verbatim>\<open>getUInt32\<close> do so on a host of
  either byte order; the success of \<^verbatim>\<open>getUInt64\<close> is stated for the little-endian host
  that every Android ABI is.
\<close>

theorem getUIntN_big_endian:
  "(DataSourceHelper_readAt this offset 2 = ((n, bytes), this') \<longrightarrow>
      (n = 2 \<and> length bytes = 2 \<longrightarrow>
         getUInt16 this offset = ((True, of_nat (big_endian bytes)), this') \<and> big_endian bytes < 2 ^ 16) \<and>
      (n < 2 \<longrightarrow> getUInt16 this offset = ((False, 0), this'))) \<and>
   (DataSourceHelper_readAt this offset 3 = ((n, bytes), this') \<longrightarrow>
      (n = 3 \<and> length bytes = 3 \<longrightarrow>
         getUInt24 this offset = ((True, of_nat (big_endian bytes)), this') \<and> big_endian bytes < 2 ^ 24) \<and>
      (n < 3 \<longrightarrow> getUInt24 this offset = ((False, 0), this'))) \<and>
   (DataSourceHelper_readAt this offset 4 = ((n, bytes), this') \<longrightarrow>
      (n = 4 \<and> length bytes = 4 \<longrightarrow>
         getUInt32 host this offset = ((True, of_nat (big_endian bytes)), this') \<and> big_endian bytes < 2 ^ 32) \<and>
      (n < 4 \<longrightarrow> getUInt32 host this offset = ((False, 0), this'))) \<and>
   (DataSourceHelper_readAt this offset 8 = ((n, bytes), this') \<longrightarrow>
      (n = 8 \<and> length bytes = 8 \<longrightarrow>
         getUInt64 LittleEndian this offset = ((True, of_nat (big_endian bytes)), this') \<and> big_endian bytes < 2 ^ 64) \<and>
      (n < 8 \<longrightarrow> getUInt64 host this offset = ((False, 0), this')))"
proof (intro conjI impI)
  assume "DataSourceHelper_readAt this offset 2 = ((n, bytes), this')" and "n = 2 \<and> length bytes = 2"
  then show "getUInt16 this offset = ((True, of_nat (big_endian bytes)), this')"
    using getUInt16_ok [of this offset bytes this'] load_BigEndian_of_nat [of bytes, where ?'a = 16]
    by simp
next
  assume "n = 2 \<and> length bytes = 2"
  then show "big_endian bytes < 2 ^ 16"
    using big_endian_less [of bytes] by simp
next
  assume "DataSourceHelper_readAt this offset 2 = ((n, bytes), this')" and "n < 2"
  then show "getUInt16 this offset = ((False, 0), this')"
    by (simp add: getUInt16_fail)
next
  assume "DataSourceHelper_readAt this offset 3 = ((n, bytes), this')" and "n = 3 \<and> length bytes = 3"
  then show "getUInt24 this offset = ((True, of_nat (big_endian bytes)), this')"
    using getUInt24_ok [of this offset bytes this'] load_BigEndian_of_nat [of bytes, where ?'a = 32]
    by simp
next
  assume "n = 3 \<and> length bytes = 3"
  then show "big_endian bytes < 2 ^ 24"
    using big_endian_less [of bytes] by simp
next
  assume "DataSourceHelper_readAt this offset 3 = ((n, bytes), this')" and "n < 3"
  then show "getUInt24 this offset = ((False, 0), this')"
    by (simp add: getUInt24_fail)
next
  assume "DataSourceHelper_readAt this offset 4 = ((n, bytes), this')" and "n = 4 \<and> length bytes = 4"
  then show "getUInt32 host this offset = ((True, of_nat (big_endian bytes)), this')"
    using getUInt32_ok [of this offset bytes this' host] load_BigEndian_of_nat [of bytes, where ?'a = 32]
    by simp
next
  assume "n = 4 \<and> length bytes = 4"
  then show "big_endian bytes < 2 ^ 32"
    using big_endian_less [of bytes] by simp
next
  assume "DataSourceHelper_readAt this offset 4 = ((n, bytes), this')" and "n < 4"
  then show "getUInt32 host this offset = ((False, 0), this')"
    by (simp add: getUInt32_fail)
next
  assume "DataSourceHelper_readAt this offset 8 = ((n, bytes), this')" and "n = 8 \<and> length bytes = 8"
  then show "getUInt64 LittleEndian this offset = ((True, of_nat (big_endian bytes)), this')"
    using getUInt64_ok [of this offset bytes this'] load_BigEndian_of_nat [of bytes, where ?'a = 64]
    by simp
next
  assume "n = 8 \<and> length bytes = 8"
  then show "big_endian bytes < 2 ^ 64"
    using big_endian_less [of bytes] by simp
next
  assume "DataSourceHelper_readAt this offset 8 = ((n, bytes), this')" and "n < 8"
  then show "getUInt64 host this offset = ((False, 0), this')"
    by (simp add: getUInt64_fail)
qed

theorem getUIntN_big_endian_witness:
  "DataSourceHelper_readAt (memory_source [1, 2, 3, 4, 5, 6, 7, 8] []) 0 2
     = ((2, [1, 2]), memory_source [1, 2, 3, 4, 5, 6, 7, 8] [(0, 2)]) \<and>
   getUInt16 (memory_source [1, 2, 3, 4, 5, 6, 7, 8] []) 0
     = ((True, 0x0102), memory_source [1, 2, 3, 4, 5, 6, 7, 8] [(0, 2)]) \<and>
   DataSourceHelper_readAt (memory_source [1, 2, 3, 4, 5, 6, 7, 8] []) 0 3
     = ((3, [1, 2, 3]), memory_source [1, 2, 3, 4, 5, 6, 7, 8] [(0, 3)]) \<and>
   getUInt24 (memory_source [1, 2, 3, 4, 5, 6, 7, 8] []) 0
     = ((True, 0x010203), memory_source [1, 2, 3, 4, 5, 6, 7, 8] [(0, 3)]) \<and>
   DataSourceHelper_readAt (memory_source [1, 2, 3, 4, 5, 6, 7, 8] []) 0 4
     = ((4, [1, 2, 3, 4]), memory_source [1, 2, 3, 4, 5, 6, 7, 8] [(0, 4)]) \<and>
   getUInt32 LittleEndian (memory_source [1, 2, 3, 4, 5, 6, 7, 8] []) 0
     = ((True, 0x01020304), memory_source [1, 2, 3, 4, 5, 6, 7, 8] [(0, 4)]) \<and>
   DataSourceHelper_readAt (memory_source [1, 2, 3, 4, 5, 6, 7, 8] []) 0 8
     = ((8, [1, 2, 3, 4, 5, 6, 7, 8]), memory_source [1, 2, 3, 4, 5, 6, 7, 8] [(0, 8)]) \<and>
   getUInt64 LittleEndian (memory_source [1, 2, 3, 4, 5, 6, 7, 8] []) 0
     = ((True, 0x0102030405060708), memory_source [1, 2, 3, 4, 5, 6, 7, 8] [(0, 8)]) \<and>
   DataSourceHelper_readAt (memory_source [9] []) 0 2 = ((1, [9]), memory_source [9] [(0, 2)]) \<and>
   getUInt16 (memory_source [9] []) 0 = ((False, 0), memory_source [9] [(0, 2)]) \<and>
   DataSourceHelper_readAt (memory_source [9] []) 0 3 = ((1, [9]), memory_source [9] [(0, 3)]) \<and>
   getUInt24 (memory_source [9] []) 0 = ((False, 0), memory_source [9] [(0, 3)]) \<and>
   DataSourceHelper_readAt (memory_source [9] []) 0 4 = ((1, [9]), memory_source [9] [(0, 4)]) \<and>
   getUInt32 LittleEndian (memory_source [9] []) 0 = ((False, 0), memory_source [9] [(0, 4)]) \<and>
   DataSourceHelper_readAt (memory_source [9] []) 0 8 = ((1, [9]), memory_source [9] [(0, 8)]) \<and>
   getUInt64 LittleEndian (memory_source [9] []) 0 = ((False, 0), memory_source [9] [(0, 8)])"
proof -
  let ?full = "memory_source [1, 2, 3, 4, 5, 6, 7, 8]"
  let ?short = "memory_source [9]"
  note ev = DataSourceHelper_readAt_def memory_source_def memory_readAt_def big_endian_def Let_def
  have r2: "DataSourceHelper_readAt (?full []) 0 2 = ((2, [1, 2]), ?full [(0, 2)])"
    and r3: "DataSourceHelper_readAt (?full []) 0 3 = ((3, [1, 2, 3]), ?full [(0, 3)])"
    and r4: "DataSourceHelper_readAt (?full []) 0 4 = ((4, [1, 2, 3, 4]), ?full [(0, 4)])"
    and r8: "DataSourceHelper_readAt (?full []) 0 8 = ((8, [1, 2, 3, 4, 5, 6, 7, 8]), ?full [(0, 8)])"
    and s2: "DataSourceHelper_readAt (?short []) 0 2 = ((1, [9]), ?short [(0, 2)])"
    and s3: "DataSourceHelper_readAt (?short []) 0 3 = ((1, [9]), ?short [(0, 3)])"
    and s4: "DataSourceHelper_readAt (?short []) 0 4 = ((1, [9]), ?short [(0, 4)])"
    and s8: "DataSourceHelper_readAt (?short []) 0 8 = ((1, [9]), ?short [(0, 8)])"
    by (simp_all add: ev)
  have "getUInt16 (?full []) 0 = ((True, 0x0102), ?full [(0, 2)])"
    using getUIntN_big_endian [where this = "?full []" and offset = 0 and n = 2 and bytes = "[1, 2]"
        and this' = "?full [(0, 2)]"] r2
    by (simp add: big_endian_def)
  moreover have "getUInt24 (?full []) 0 = ((True, 0x010203), ?full [(0, 3)])"
    using getUIntN_big_endian [where this = "?full []" and offset = 0 and n = 3 and bytes = "[1, 2, 3]"
        and this' = "?full [(0, 3)]"] r3
    by (simp add: big_endian_def)
  moreover have "getUInt32 LittleEndian (?full []) 0 = ((True, 0x01020304), ?full [(0, 4)])"
    using getUIntN_big_endian [where this = "?full []" and offset = 0 and n = 4 and bytes = "[1, 2, 3, 4]"
        and this' = "?full [(0, 4)]" and host = LittleEndian] r4
    by (simp add: big_endian_def)
  moreover have "getUInt64 LittleEndian (?full []) 0 = ((True, 0x0102030405060708), ?full [(0, 8)])"
    using getUIntN_big_endian [where this = "?full []" and offset = 0 and n = 8
        and bytes = "[1, 2, 3, 4, 5, 6, 7, 8]" and this' = "?full [(0, 8)]"] r8
    by (simp add: big_endian_def)
  moreover have "getUInt16 (?short []) 0 = ((False, 0), ?short [(0, 2)])"
    using getUIntN_big_endian [where this = "?short []" and offset = 0 and n = 1 and bytes = "[9]"
        and this' = "?short [(0, 2)]"] s2
    by simp
  moreover have "getUInt24 (?short []) 0 = ((False, 0), ?short [(0, 3)])"
    using getUIntN_big_endian [where this = "?short []" and offset = 0 and n = 1 and bytes = "[9]"
        and this' = "?short [(0, 3)]"] s3
    by simp
  moreover have "getUInt32 LittleEndian (?short []) 0 = ((False, 0), ?short [(0, 4)])"
    using getUIntN_big_endian [where this = "?short []" and offset = 0 and n = 1 and bytes = "[9]"
        and this' = "?short [(0, 4)]" and host = LittleEndian] s4
    by simp
  moreover have "getUInt64 LittleEndian (?short []) 0 = ((False, 0), ?short [(0, 8)])"
    using getUIntN_big_endian [where this = "?short []" and offset = 0 and n = 1 and bytes = "[9]"
        and this' = "?short [(0, 8)]" and host = LittleEndian] s8
    by simp
  ultimately show ?thesis
    using r2 r3 r4 r8 s2 s3 s4 s8 by simp
qed

text \<open>
  The two halves that \<^verbatim>\<open>getUInt64\<close> takes from \<^verbatim>\<open>tmp\<close> are the first and the last four
  bytes only where the host is little-endian. Were the header compiled for a big-endian
  host, the reader would exchange the two 32-bit halves of the value.
\<close>

lemma getUInt64_BigEndian_host:
  "getUInt64 BigEndian (memory_source [1, 2, 3, 4, 5, 6, 7, 8] []) 0
     = ((True, 0x0506070801020304), memory_source [1, 2, 3, 4, 5, 6, 7, 8] [(0, 8)])"
  by (simp add: getUInt64_def DataSourceHelper_readAt_def memory_source_def memory_readAt_def
      load_uint_def ntohl_def Let_def)

subsection \<open>Failure and the output parameter\<close>

text \<open>Every call through \<^verbatim>\<open>DataSourceHelper::readAt\<close> is recorded.\<close>

lemma DataSourceHelper_readAt_logged:
  "readAt_calls (snd (DataSourceHelper_readAt this offset sz)) = readAt_calls this @ [(offset, sz)]"
  by (simp add: DataSourceHelper_readAt_def split: prod.splits)

text \<open>
  The fixed-width readers set \<^verbatim>\<open>*x\<close> to 0 before they read, so a failure leaves 0 there;
  the variable-width readers inherit this at the full width, where they delegate.
\<close>

lemma fixed_width_failure_zeroes:
  "(\<not> fst (fst (getUInt16 this offset)) \<longrightarrow> snd (fst (getUInt16 this offset)) = 0) \<and>
   (\<not> fst (fst (getUInt24 this offset)) \<longrightarrow> snd (fst (getUInt24 this offset)) = 0) \<and>
   (\<not> fst (fst (getUInt32 host this offset)) \<longrightarrow> snd (fst (getUInt32 host this offset)) = 0) \<and>
   (\<not> fst (fst (getUInt64 host this offset)) \<longrightarrow> snd (fst (getUInt64 host this offset)) = 0)"
  by (simp add: getUInt16_def getUInt24_def getUInt32_def getUInt64_def Let_def split: prod.splits)

lemma full_width_failure_zeroes:
  "(\<not> fst (fst (getUInt16Var this offset xa 2)) \<longrightarrow> snd (fst (getUInt16Var this offset xa 2)) = 0) \<and>
   (\<not> fst (fst (getUInt32Var host this offset xb 4)) \<longrightarrow> snd (fst (getUInt32Var host this offset xb 4)) = 0) \<and>
   (\<not> fst (fst (getUInt64Var host this offset xc 8)) \<longrightarrow> snd (fst (getUInt64Var host this offset xc 8)) = 0)"
  using fixed_width_failure_zeroes [of this offset host]
  by (simp add: getUInt16Var_def getUInt32Var_def getUInt64Var_def)

text \<open>
  Claim C2. Whenever a binary-field reader returns false, \<^verbatim>\<open>*x\<close> is zero, for the
  variable-width readers too. The code does not do this at the half width: there
  \<^verbatim>\<open>getUInt32Var\<close> reads into a local \<^verbatim>\<open>tmp\<close> and on failure returns false without having
  written \<^verbatim>\<open>*x\<close>. On a source that holds one byte, \<^verbatim>\<open>getUInt32Var(0, &x, 2)\<close> with
  \<^verbatim>\<open>x == 0xdeadbeef\<close> returns false and leaves \<^verbatim>\<open>0xdeadbeef\<close> in \<^verbatim>\<open>x\<close>.
\<close>

theorem getUInt32Var_short_read_keeps_out:
  "getUInt32Var host (memory_source [0x12] []) 0 0xdeadbeef 2 =
     ((False, 0xdeadbeef), memory_source [0x12] [(0, 2)])"
  by (simp add: getUInt32Var_def getUInt16_def DataSourceHelper_readAt_def memory_source_def
      memory_readAt_def Let_def)

text \<open>
  Claim C3. For every size argument that is neither the half nor the full width of the
  output type (1 or 2 for \<^verbatim>\<open>getUInt16Var\<close>, 2 or 4 for \<^verbatim>\<open>getUInt32Var\<close>, 4 or 8 for
  \<^verbatim>\<open>getUInt64Var\<close>) the reader returns false and makes no call to \<^verbatim>\<open>readAt\<close>: the helper is
  returned as it was, with the source in the same state and no call recorded.
\<close>

theorem getUIntNVar_rejects_other_sizes:
  "(sz \<noteq> 1 \<and> sz \<noteq> 2 \<longrightarrow> getUInt16Var this offset xa sz = ((False, xa), this)) \<and>
   (sz \<noteq> 2 \<and> sz \<noteq> 4 \<longrightarrow> getUInt32Var host this offset xb sz = ((False, xb), this)) \<and>
   (sz \<noteq> 4 \<and> sz \<noteq> 8 \<longrightarrow> getUInt64Var host this offset xc sz = ((False, xc), this))"
  by (simp add: getUInt16Var_def getUInt32Var_def getUInt64Var_def)

theorem getUIntNVar_rejects_other_sizes_witness:
  "(3::nat) \<noteq> 1 \<and> (3::nat) \<noteq> 2 \<and> (3::nat) \<noteq> 4 \<and> (3::nat) \<noteq> 8 \<and>
   getUInt16Var (memory_source [1, 2, 3, 4, 5, 6, 7, 8] []) 0 7 3 = ((False, 7), memory_source [1, 2, 3, 4, 5, 6, 7, 8] []) \<and>
   getUInt32Var LittleEndian (memory_source [1, 2, 3, 4, 5, 6, 7, 8] []) 0 7 3
     = ((False, 7), memory_source [1, 2, 3, 4, 5, 6, 7, 8] []) \<and>
   getUInt64Var LittleEndian (memory_source [1, 2, 3, 4, 5, 6, 7, 8] []) 0 7 3
     = ((False, 7), memory_source [1, 2, 3, 4, 5, 6, 7, 8] []) \<and>
   readAt_calls (snd (getUInt32Var LittleEndian (memory_source [1, 2, 3, 4, 5, 6, 7, 8] []) 0 7 3)) = []"
  using getUIntNVar_rejects_other_sizes
    [where sz = 3 and this = "memory_source [1, 2, 3, 4, 5, 6, 7, 8] []" and offset = 0
       and xa = 7 and xb = 7 and xc = 7 and host = LittleEndian]
  by (simp add: memory_source_def)

text \<open>
  Claim C4. On the same source and offset, \<^verbatim>\<open>getUInt32Var(offset, &out, 2)\<close> returns the
  boolean that \<^verbatim>\<open>getUInt16(offset, &tmp)\<close> returns, and on success \<^verbatim>\<open>out\<close> is \<^verbatim>\<open>tmp\<close>
  zero-extended to 32 bits; both leave the source in the same state. And
  \<^verbatim>\<open>getUInt32Var(offset, &out, 4)\<close> returns the boolean and the value of
  \<^verbatim>\<open>getUInt32(offset, &out)\<close>.
\<close>

theorem getUInt32Var_agrees:
  "fst (fst (getUInt32Var host this offset x 2)) = fst (fst (getUInt16 this offset)) \<and>
   (fst (fst (getUInt16 this offset)) \<longrightarrow>
      snd (fst (getUInt32Var host this offset x 2)) = ucast (snd (fst (getUInt16 this offset)))) \<and>
   snd (getUInt32Var host this offset x 2) = snd (getUInt16 this offset) \<and>
   getUInt32Var host this offset x 4 = getUInt32 host this offset"
  by (simp add: getUInt32Var_def split: prod.splits)

theorem getUInt32Var_agrees_witness:
  "fst (fst (getUInt16 (memory_source [0xab, 0xcd, 0xef, 0x01] []) 0)) \<and>
   getUInt16 (memory_source [0xab, 0xcd, 0xef, 0x01] []) 0
     = ((True, 0xabcd), memory_source [0xab, 0xcd, 0xef, 0x01] [(0, 2)]) \<and>
   getUInt32Var LittleEndian (memory_source [0xab, 0xcd, 0xef, 0x01] []) 0 0xffffffff 2
     = ((True, 0x0000abcd), memory_source [0xab, 0xcd, 0xef, 0x01] [(0, 2)])"
proof -
  have g: "getUInt16 (memory_source [0xab, 0xcd, 0xef, 0x01] []) 0
     = ((True, 0xabcd), memory_source [0xab, 0xcd, 0xef, 0x01] [(0, 2)])"
    by (simp add: getUInt16_def DataSourceHelper_readAt_def memory_source_def memory_readAt_def Let_def)
  show ?thesis
    using getUInt32Var_agrees [where host = LittleEndian and offset = 0 and x = "0xffffffff"
        and this = "memory_source [0xab, 0xcd, 0xef, 0x01] []"] g
    by (cases "getUInt32Var LittleEndian (memory_source [0xab, 0xcd, 0xef, 0x01] []) 0 0xffffffff 2")
      auto
qed

lemma mask_ff000000: "(0xff000000 :: uint32_t) = push_bit 24 (mask 8)"
  by (simp add: mask_eq_exp_minus_1 push_bit_eq_mult)

lemma expr24_high_bits:
  "(ucast (push_bit 16 (ucast (b0::uint8_t) :: c_int) OR push_bit 8 (ucast (b1::uint8_t))
           OR ucast (b2::uint8_t)) :: uint32_t) AND 0xff000000 = 0"
  unfolding mask_ff000000
  by (rule bit_word_eqI) (auto simp: bit_simps dest: bit_imp_le_length)

text \<open>
  Claim C5. After any call of \<^verbatim>\<open>getUInt24\<close>, whether it returns true or false, bits 24 to
  31 of \<^verbatim>\<open>*x\<close> are zero.
\<close>

theorem getUInt24_high_byte_zero:
  "snd (fst (getUInt24 this offset)) AND 0xff000000 = 0"
proof -
  obtain n bytes this' where r: "DataSourceHelper_readAt this offset 3 = ((n, bytes), this')"
    by (cases "DataSourceHelper_readAt this offset 3") auto
  show ?thesis
  proof (cases "n = 3")
    case True
    have "getUInt24 this offset =
        ((True, ucast (push_bit 16 (ucast (bytes ! 0) :: c_int) OR push_bit 8 (ucast (bytes ! 1))
                       OR ucast (bytes ! 2))), this')"
      by (simp add: getUInt24_def r True)
    then show ?thesis
      by (simp only: fst_conv snd_conv expr24_high_bits)
  next
    case False
    then have "getUInt24 this offset = ((False, 0), this')"
      by (simp add: getUInt24_def r)
    then show ?thesis
      by simp
  qed
qed

section \<open>Properties of \<^verbatim>\<open>wrap\<close>\<close>

lemma invoke_live:
  "st a = Some obj \<Longrightarrow> invoke method (Ptr a) st = returning obj a st (method obj (members obj))"
  by (simp add: invoke_def returning_def)

lemma default_flags_value: "MediaExtractorPluginHelper_flags this = 15"
  by (simp add: MediaExtractorPluginHelper_flags_def CAN_SEEK_BACKWARD_def CAN_SEEK_FORWARD_def
      CAN_SEEK_def CAN_PAUSE_def)

text \<open>
  Claim C6. For every object of a class derived from \<^verbatim>\<open>MediaExtractorPluginHelper\<close> and
  every capability slot of the \<^verbatim>\<open>CMediaExtractor\<close> that \<^verbatim>\<open>wrap\<close> produces for it (countTracks,
  getTrack, getTrackMetaData, getMetaData, flags, setMediaCas, name): calling the slot on
  the wrapper's \<^verbatim>\<open>data\<close> with any arguments returns exactly what the object's own method
  returns on the same arguments, status codes included, and leaves the object in the
  state in which the method leaves it.
\<close>

theorem wrap_forwards:
  assumes "st a = Some obj"
  shows
   "through (countTracks (wrap wrapper (Ptr a))) (\<lambda>f. f (data (wrap wrapper (Ptr a))) st)
      = returning obj a st (MediaExtractorPluginHelper.countTracks obj (members obj)) \<and>
    through (getTrack (wrap wrapper (Ptr a))) (\<lambda>f. f (data (wrap wrapper (Ptr a))) index st)
      = returning obj a st (MediaExtractorPluginHelper.getTrack obj (members obj) index) \<and>
    through (getTrackMetaData (wrap wrapper (Ptr a)))
        (\<lambda>f. f (data (wrap wrapper (Ptr a))) meta index fl st)
      = returning obj a st (MediaExtractorPluginHelper.getTrackMetaData obj (members obj) meta index fl) \<and>
    through (getMetaData (wrap wrapper (Ptr a))) (\<lambda>f. f (data (wrap wrapper (Ptr a))) meta st)
      = returning obj a st (MediaExtractorPluginHelper.getMetaData obj (members obj) meta) \<and>
    through (flags (wrap wrapper (Ptr a))) (\<lambda>f. f (data (wrap wrapper (Ptr a))) st)
      = returning obj a st (MediaExtractorPluginHelper.flags obj (members obj), members obj) \<and>
    through (setMediaCas (wrap wrapper (Ptr a))) (\<lambda>f. f (data (wrap wrapper (Ptr a))) casToken sz st)
      = returning obj a st (MediaExtractorPluginHelper.setMediaCas obj (members obj) casToken sz) \<and>
    through (name (wrap wrapper (Ptr a))) (\<lambda>f. f (data (wrap wrapper (Ptr a))) st)
      = returning obj a st (MediaExtractorPluginHelper.name obj (members obj))"
  using assms by (simp add: wrap_def through_def invoke_live)

theorem wrap_forwards_witness:
  "plain_store 0 5 = Some (plain_extractor 0) \<and>
   through (countTracks (wrap null_wrapper (Ptr 5))) (\<lambda>f. f (data (wrap null_wrapper (Ptr 5))) (plain_store 0))
     = Some (2, plain_store 1) \<and>
   through (getTrack (wrap null_wrapper (Ptr 5))) (\<lambda>f. f (data (wrap null_wrapper (Ptr 5))) 1 (plain_store 0))
     = Some (1, plain_store 0) \<and>
   through (getTrackMetaData (wrap null_wrapper (Ptr 5)))
       (\<lambda>f. f (data (wrap null_wrapper (Ptr 5))) [] 9 0 (plain_store 0))
     = Some ((- 22, []), plain_store 0) \<and>
   through (getMetaData (wrap null_wrapper (Ptr 5))) (\<lambda>f. f (data (wrap null_wrapper (Ptr 5))) [] (plain_store 0))
     = Some ((0, [7]), plain_store 0) \<and>
   through (flags (wrap null_wrapper (Ptr 5))) (\<lambda>f. f (data (wrap null_wrapper (Ptr 5))) (plain_store 0))
     = Some (15, plain_store 0) \<and>
   through (setMediaCas (wrap null_wrapper (Ptr 5)))
       (\<lambda>f. f (data (wrap null_wrapper (Ptr 5))) [1, 2, 3] 3 (plain_store 0))
     = Some (- 38, plain_store 0) \<and>
   through (name (wrap null_wrapper (Ptr 5))) (\<lambda>f. f (data (wrap null_wrapper (Ptr 5))) (plain_store 0))
     = Some (''<unspecified>'', plain_store 0)"
proof -
  have live: "plain_store 0 5 = Some (plain_extractor 0)"
    by (simp add: plain_store_def)
  have same: "(plain_extractor 0)\<lparr>members := n\<rparr> = plain_extractor n" for n
    by (simp add: plain_extractor_def)
  have upd: "(plain_store 0)(5 \<mapsto> plain_extractor n) = plain_store n" for n
    by (simp add: plain_store_def)
  show ?thesis
    using wrap_forwards [where st = "plain_store 0" and a = 5 and obj = "plain_extractor 0"
        and wrapper = null_wrapper and index = 1 and meta = "[]" and fl = 0
        and casToken = "[1, 2, 3]" and sz = 3]
      wrap_forwards [where st = "plain_store 0" and a = 5 and obj = "plain_extractor 0"
        and wrapper = null_wrapper and index = 9 and meta = "[]" and fl = 0]
    by (simp add: live returning_def same upd)
      (simp add: plain_extractor_def default_flags_value MediaExtractorPluginHelper_setMediaCas_def
        MediaExtractorPluginHelper_name_def)
qed

text \<open>
  Claim C7. Whatever the allocated block held, every function-pointer slot of the
  \<^verbatim>\<open>CMediaExtractor\<close> that \<^verbatim>\<open>wrap\<close> returns (free, countTracks, getTrack, getTrackMetaData,
  getMetaData, flags, setMediaCas, name) is non-null, and its \<^verbatim>\<open>data\<close> field holds the
  pointer that was wrapped. This holds for every pointer, so for every non-null one.
\<close>

theorem wrap_fills_every_slot:
  "free (wrap wrapper extractor) \<noteq> None \<and>
   countTracks (wrap wrapper extractor) \<noteq> None \<and>
   getTrack (wrap wrapper extractor) \<noteq> None \<and>
   getTrackMetaData (wrap wrapper extractor) \<noteq> None \<and>
   getMetaData (wrap wrapper extractor) \<noteq> None \<and>
   flags (wrap wrapper extractor) \<noteq> None \<and>
   setMediaCas (wrap wrapper extractor) \<noteq> None \<and>
   name (wrap wrapper extractor) \<noteq> None \<and>
   data (wrap wrapper extractor) = extractor"
  by (simp add: wrap_def)

text \<open>
  Claim C10. For an object whose class does not override the optional methods, the
  defaults seen through the wrapper are fixed: \<^verbatim>\<open>flags\<close> returns
  \<^verbatim>\<open>CAN_SEEK_BACKWARD | CAN_SEEK_FORWARD | CAN_SEEK | CAN_PAUSE\<close>, the value 15,
  \<^verbatim>\<open>setMediaCas\<close> returns \<^verbatim>\<open>INVALID_OPERATION\<close> for every token and size, and \<^verbatim>\<open>name\<close> returns
  the string \<^verbatim>\<open><unspecified>\<close>; none of them changes the object.
\<close>

theorem wrap_defaults:
  assumes "st a = Some obj"
    and "MediaExtractorPluginHelper.flags obj = MediaExtractorPluginHelper_flags"
    and "MediaExtractorPluginHelper.setMediaCas obj = MediaExtractorPluginHelper_setMediaCas INVALID_OPERATION"
    and "MediaExtractorPluginHelper.name obj = MediaExtractorPluginHelper_name"
  shows
   "through (flags (wrap wrapper (Ptr a))) (\<lambda>f. f (data (wrap wrapper (Ptr a))) st) = Some (15, st) \<and>
    through (setMediaCas (wrap wrapper (Ptr a))) (\<lambda>f. f (data (wrap wrapper (Ptr a))) casToken sz st)
      = Some (INVALID_OPERATION, st) \<and>
    through (name (wrap wrapper (Ptr a))) (\<lambda>f. f (data (wrap wrapper (Ptr a))) st)
      = Some (''<unspecified>'', st)"
proof -
  have "st(a \<mapsto> obj) = st"
    using assms(1) by (rule map_upd_triv)
  then show ?thesis
    using assms
    by (simp add: wrap_def through_def invoke_def default_flags_value
        MediaExtractorPluginHelper_setMediaCas_def MediaExtractorPluginHelper_name_def)
qed

theorem wrap_defaults_witness:
  "plain_store 0 5 = Some (plain_extractor 0) \<and>
   MediaExtractorPluginHelper.flags (plain_extractor 0) = MediaExtractorPluginHelper_flags \<and>
   MediaExtractorPluginHelper.setMediaCas (plain_extractor 0) = MediaExtractorPluginHelper_setMediaCas (- 38) \<and>
   MediaExtractorPluginHelper.name (plain_extractor 0) = MediaExtractorPluginHelper_name \<and>
   through (flags (wrap null_wrapper (Ptr 5))) (\<lambda>f. f (data (wrap null_wrapper (Ptr 5))) (plain_store 0))
     = Some (15, plain_store 0) \<and>
   through (setMediaCas (wrap null_wrapper (Ptr 5)))
       (\<lambda>f. f (data (wrap null_wrapper (Ptr 5))) [0xca, 0xfe] 2 (plain_store 0))
     = Some (- 38, plain_store 0) \<and>
   through (name (wrap null_wrapper (Ptr 5))) (\<lambda>f. f (data (wrap null_wrapper (Ptr 5))) (plain_store 0))
     = Some (''<unspecified>'', plain_store 0)"
proof -
  have live: "plain_store 0 5 = Some (plain_extractor 0)"
    by (simp add: plain_store_def)
  have f: "MediaExtractorPluginHelper.flags (plain_extractor 0) = MediaExtractorPluginHelper_flags"
    and c: "MediaExtractorPluginHelper.setMediaCas (plain_extractor 0)
              = MediaExtractorPluginHelper_setMediaCas (- 38)"
    and n: "MediaExtractorPluginHelper.name (plain_extractor 0) = MediaExtractorPluginHelper_name"
    by (simp_all add: plain_extractor_def)
  show ?thesis
    using wrap_defaults [where st = "plain_store 0" and a = 5 and obj = "plain_extractor 0"
        and INVALID_OPERATION = "- 38" and wrapper = null_wrapper
        and casToken = "[0xca, 0xfe]" and sz = 2]
      live f c n
    by simp
qed

section \<open>Properties of \<^verbatim>\<open>constUUID\<close>\<close>

lemma of_char_int_nat: "(of_char c :: int) = int (of_char c)"
  by (simp add: of_char_def)

lemma digitAt_accepts:
  "(\<not> isl (digitAt s n)) = (n < length s \<and> is_hex_digit (s ! n))"
  by (auto simp: digitAt_def is_hex_digit_def between_def invalid_uuid_string_def Let_def
      of_char_int_nat)

lemma hexByteAt_accepts:
  "(\<not> isl (hexByteAt s n)) = (\<not> isl (digitAt s n) \<and> \<not> isl (digitAt s (n + 1)))"
  by (simp add: hexByteAt_def split: sum.splits)

lemma inOrder_accepts: "(\<not> isl (inOrder xs)) = list_all (\<lambda>x. \<not> isl x) xs"
  by (induction xs) (auto split: sum.splits)

lemma assertIsDash_accepts: "(\<not> isl (assertIsDash c)) = (c = CHR ''-'')"
  by (simp add: assertIsDash_def invalid_uuid_string_def)

lemma andThen_accepts: "(\<not> isl (andThen first rest)) = (\<not> isl first \<and> \<not> isl rest)"
  by (simp add: andThen_def split: sum.splits)

lemma digit_positions_eq:
  "digit_positions = [0, 1, 2, 3, 4, 5, 6, 7, 9, 10, 11, 12, 14, 15, 16, 17, 19, 20, 21, 22,
                      24, 25, 26, 27, 28, 29, 30, 31, 32, 33, 34, 35]"
  by (simp add: digit_positions_def separator_positions_def upt_rec)

lemma constUUID_accepts: "(\<not> isl (constUUID s)) = valid_uuid_literal s"
proof (cases "length s = 37")
  case False
  then show ?thesis
    by (simp add: constUUID_def valid_uuid_literal_def)
next
  case True
  have "(\<not> isl (constUUID s)) =
      (\<not> isl (assertIsDash (s ! 8)) \<and> \<not> isl (assertIsDash (s ! 13)) \<and>
       \<not> isl (assertIsDash (s ! 18)) \<and> \<not> isl (assertIsDash (s ! 23)) \<and>
       \<not> isl (inOrder
                 [hexByteAt s 0, hexByteAt s 2, hexByteAt s 4, hexByteAt s 6,
                  hexByteAt s 9, hexByteAt s 11,
                  hexByteAt s 14, hexByteAt s 16,
                  hexByteAt s 19, hexByteAt s 21,
                  hexByteAt s 24, hexByteAt s 26, hexByteAt s 28, hexByteAt s 30,
                  hexByteAt s 32, hexByteAt s 34]))"
    using True by (simp add: constUUID_def andThen_accepts split: sum.splits)
  also have "\<dots> = valid_uuid_literal s"
    using True
    by (simp add: valid_uuid_literal_def separator_positions_def digit_positions_eq
        assertIsDash_accepts inOrder_accepts hexByteAt_accepts digitAt_accepts conj_ac
        del: inOrder.simps)
  finally show ?thesis .
qed

text \<open>
  Claim C9. \<^verbatim>\<open>constUUID\<close> yields a value exactly for the valid inputs: a stored literal of
  length 37 whose characters at indices 8, 13, 18 and 23 are \<^verbatim>\<open>-\<close> and whose characters
  consumed as hex digits are in \<^verbatim>\<open>0\<close>-\<^verbatim>\<open>9\<close>, \<^verbatim>\<open>a\<close>-\<^verbatim>\<open>f\<close> or \<^verbatim>\<open>A\<close>-\<^verbatim>\<open>F\<close>. On every other input
  the build fails: there is no value, neither a wrong one nor one at run time.
\<close>

theorem constUUID_accepts_iff_valid:
  "(\<exists>uuid. constUUID s = Inr uuid) = valid_uuid_literal s \<and>
   (\<exists>failure. constUUID s = Inl failure) = (\<not> valid_uuid_literal s)"
  using constUUID_accepts [of s] by (cases "constUUID s") auto

text \<open>A bad digit, a bad length and a misplaced separator, with the failure of each.\<close>

lemma constUUID_rejects:
  "constUUID (literal ''7d613858-5837-4a38-84c5-332d1cddee2g'')
     = Inl (not_a_constant_expression ''uuid: bad digits'') \<and>
   constUUID (literal ''7d613858-5837-4a38-84c5-332d1cddee2'')
     = Inl (static_assert_failed ''uuid: wrong length'') \<and>
   constUUID (literal ''7d613858-58374-a38-84c5-332d1cddee27'')
     = Inl (not_a_constant_expression ''Wrong format'')"
  by (simp add: constUUID_def literal_def andThen_def assertIsDash_def hexByteAt_def digitAt_def
      invalid_uuid_string_def)

text \<open>The value that \<^verbatim>\<open>constUUID\<close> yields on a valid input is the one the spec describes.\<close>

lemma digit_value_less: "is_hex_digit c \<Longrightarrow> digit_value c < 16"
  by (auto simp: is_hex_digit_def digit_value_def between_def)

lemma digitAt_value:
  "n < length s \<Longrightarrow> is_hex_digit (s ! n) \<Longrightarrow> digitAt s n = Inr (of_nat (digit_value (s ! n)))"
  by (auto simp: digitAt_def is_hex_digit_def digit_value_def between_def Let_def of_char_int_nat
      of_nat_diff)

lemma nibbles:
  assumes "h < 16" and "l < 16"
  shows "(ucast (push_bit 4 (ucast (of_nat h :: uint8_t) :: c_int) + ucast (of_nat l :: uint8_t)) :: uint8_t)
           = of_nat (16 * h + l)"
proof -
  have h: "(ucast (of_nat h :: uint8_t) :: c_int) = of_nat h"
    using assms(1) by (simp add: unsigned_of_nat take_bit_nat_eq_self)
  have l: "(ucast (of_nat l :: uint8_t) :: c_int) = of_nat l"
    using assms(2) by (simp add: unsigned_of_nat take_bit_nat_eq_self)
  have "push_bit 4 (of_nat h :: c_int) + of_nat l = of_nat (16 * h + l)"
    by (simp add: push_bit_eq_mult)
  moreover have "(ucast (of_nat (16 * h + l) :: c_int) :: uint8_t) = of_nat (16 * h + l)"
  proof -
    have "(ucast (of_nat (16 * h + l) :: c_int) :: uint8_t) = of_nat (take_bit LENGTH(32) (16 * h + l))"
      by (rule unsigned_of_nat)
    moreover have "take_bit LENGTH(32) (16 * h + l) = 16 * h + l"
      using assms by (intro take_bit_nat_eq_self) simp
    ultimately show ?thesis
      by (simp only:)
  qed
  ultimately show ?thesis
    by (simp only: h l)
qed

lemma hexByteAt_value:
  assumes "n + 1 < length s" and "is_hex_digit (s ! n)" and "is_hex_digit (s ! (n + 1))"
  shows "hexByteAt s n = Inr (of_nat (16 * digit_value (s ! n) + digit_value (s ! (n + 1))))"
  using assms nibbles [OF digit_value_less digit_value_less, of "s ! n" "s ! (n + 1)"]
  by (simp add: hexByteAt_def digitAt_value)

lemma constUUID_value:
  assumes "valid_uuid_literal s"
  shows "constUUID s = Inr \<lparr>octets = uuid_of_literal s\<rparr>"
proof -
  have len: "length s = 37"
    using assms by (simp add: valid_uuid_literal_def)
  have dash: "s ! 8 = CHR ''-''" "s ! 13 = CHR ''-''" "s ! 18 = CHR ''-''" "s ! 23 = CHR ''-''"
    using assms by (simp_all add: valid_uuid_literal_def separator_positions_def)
  have hex: "is_hex_digit (s ! i)" if "i \<in> set digit_positions" for i
    using assms that by (simp add: valid_uuid_literal_def list_all_iff)
  have byte: "hexByteAt s n = Inr (of_nat (16 * digit_value (s ! n) + digit_value (s ! (n + 1))))"
    if "n \<in> set digit_positions" and "n + 1 \<in> set digit_positions" for n
  proof -
    have "n + 1 < length s"
      using that(2) len by (auto simp: digit_positions_eq)
    then show ?thesis
      using that by (intro hexByteAt_value hex)
  qed
  show ?thesis
    using len dash
    by (simp add: constUUID_def andThen_def assertIsDash_def byte digit_positions_eq
        uuid_of_literal_def upt_rec)
qed

text \<open>
  Claim C8. \<^verbatim>\<open>constUUID\<close> applied to the literal
  \<^verbatim>\<open>"7d613858-5837-4a38-84c5-332d1cddee27"\<close> yields the 16 bytes 7d 61 38 58 58 37 4a 38
  84 c5 33 2d 1c dd ee 27: two hex digits to a byte, the first in the high nibble, from
  left to right, the separators skipped.
\<close>

theorem constUUID_example:
  "constUUID (literal ''7d613858-5837-4a38-84c5-332d1cddee27'') =
     Inr \<lparr>octets = [0x7d, 0x61, 0x38, 0x58, 0x58, 0x37, 0x4a, 0x38,
                     0x84, 0xc5, 0x33, 0x2d, 0x1c, 0xdd, 0xee, 0x27]\<rparr>"
  by (simp add: constUUID_def literal_def andThen_def assertIsDash_def hexByteAt_def digitAt_def)

end
